theory Spec2Isabelle
  imports Main
begin

section \<open>The accounts backend: data model\<close>

text \<open>
  \<^verbatim>\<open>accounts/models.py\<close> declares one table:
  \<^verbatim>\<open>
  class User(models.Model):
      email = models.EmailField(unique=True)
      password = models.CharField(max_length=128)  # will hash later
  \<close>
  A row is a record of its two columns. The table is the list of its rows in insertion
  order. A list can hold two rows with one email; the table cannot, because of the
  \<^verbatim>\<open>unique=True\<close> index on the column: \<open>unique_emails\<close> states that constraint, and
  \<open>objects_create\<close> below refuses the insert that would break it.
  Strings are character lists, one \<open>char\<close> per character of the Python \<^verbatim>\<open>str\<close>.
\<close>

record User =
  email :: string
  password :: string

type_synonym store = "User list"

definition init_store :: store where
  "init_store = []"

definition emails :: "store \<Rightarrow> string list" where
  "emails db = map email db"

definition unique_emails :: "store \<Rightarrow> bool" where
  "unique_emails db = distinct (emails db)"

text \<open>
  An \<^verbatim>\<open>EmailField\<close> declared without \<^verbatim>\<open>max_length\<close> has Django's default of 254, and
  the column sets neither \<^verbatim>\<open>blank\<close> nor \<^verbatim>\<open>null\<close>: an email is a non-empty string of
  at most 254 characters. The password column declares \<^verbatim>\<open>max_length=128\<close>; nothing in
  models.py or views.py checks a password against it.
\<close>

definition email_max_length :: nat where
  "email_max_length = 254"

section \<open>Requests, responses, exceptions\<close>

text \<open>
  \<^verbatim>\<open>request.data\<close> is the parsed body. When the body is an object (a JSON object or a
  form) it is a dictionary from field names to the strings the client sent, and
  \<^verbatim>\<open>request.data.get(k)\<close> is \<open>None\<close> for a key that is not there (or whose value is
  \<^verbatim>\<open>null\<close>). A JSON body may also be an array, a string, a number, a boolean or
  \<^verbatim>\<open>null\<close>: then \<^verbatim>\<open>request.data\<close> is a list, a scalar or \<^verbatim>\<open>None\<close>, which has no
  \<^verbatim>\<open>get\<close>, and \<^verbatim>\<open>request.data.get(k)\<close> raises \<^verbatim>\<open>AttributeError\<close>.
\<close>

type_synonym request_data = "string \<rightharpoonup> string"

datatype request_body = JsonObject request_data | JsonOther

datatype exn = DoesNotExist | MultipleObjectsReturned | IntegrityError | AttributeError

definition data_get :: "request_body \<Rightarrow> string \<Rightarrow> exn + string option" where
  "data_get request_body k =
     (case request_body of
        JsonObject d \<Rightarrow> Inr (d k)
      | JsonOther \<Rightarrow> Inl AttributeError)"

datatype verror = Required | Blank | MaxLength | Invalid | NotUnique

datatype body =
    JsonSuccess bool
  | JsonError string
  | JsonMessage string
  | JsonErrors "(string \<times> verror list) list"

record Response =
  status :: nat
  body :: body

definition HTTP_200_OK :: nat where
  "HTTP_200_OK = 200"

definition HTTP_201_CREATED :: nat where
  "HTTP_201_CREATED = 201"

definition HTTP_400_BAD_REQUEST :: nat where
  "HTTP_400_BAD_REQUEST = 400"

definition HTTP_401_UNAUTHORIZED :: nat where
  "HTTP_401_UNAUTHORIZED = 401"

text \<open>
  A view either returns a response or lets an exception escape (which the framework turns
  into a server error). It also returns the table as the request leaves it.
\<close>

type_synonym outcome = "(exn + Response) \<times> store"

section \<open>The table manager\<close>

text \<open>
  \<^verbatim>\<open>User.objects.get(email=email, password=password)\<close>: an exact lookup on both
  columns. A lookup value of \<open>None\<close> is compared as SQL \<^verbatim>\<open>IS NULL\<close>, which no row of a
  \<^verbatim>\<open>NOT NULL\<close> column satisfies. \<^verbatim>\<open>get\<close> returns the row when exactly one matches,
  raises \<^verbatim>\<open>DoesNotExist\<close> when none does and \<^verbatim>\<open>MultipleObjectsReturned\<close> otherwise.
\<close>

definition exact :: "string \<Rightarrow> string option \<Rightarrow> bool" where
  "exact column v = (case v of None \<Rightarrow> False | Some s \<Rightarrow> column = s)"

definition objects_filter :: "store \<Rightarrow> string option \<Rightarrow> string option \<Rightarrow> User list" where
  "objects_filter db em pw = filter (\<lambda>u. exact (email u) em \<and> exact (password u) pw) db"

definition objects_get :: "store \<Rightarrow> string option \<Rightarrow> string option \<Rightarrow> exn + User" where
  "objects_get db em pw =
     (case objects_filter db em pw of
        [] \<Rightarrow> Inl DoesNotExist
      | [u] \<Rightarrow> Inr u
      | _ \<Rightarrow> Inl MultipleObjectsReturned)"

text \<open>
  \<^verbatim>\<open>User.objects.create\<close>, the insert behind \<^verbatim>\<open>serializer.save()\<close>: the unique index
  on \<^verbatim>\<open>email\<close> rejects a second row with a stored email.
\<close>

definition objects_create :: "store \<Rightarrow> User \<Rightarrow> exn + store" where
  "objects_create db u =
     (if email u \<in> set (emails db) then Inl IntegrityError else Inr (db @ [u]))"

section \<open>The login view\<close>

text \<open>
  \<^verbatim>\<open>
  def login_user(request):
      email = request.data.get('email')
      password = request.data.get('password')
      try:
          user = User.objects.get(email=email, password=password)
          return Response({"success": True}, status=status.HTTP_200_OK)
      except User.DoesNotExist:
          return Response({"error": "Invalid email or password"},
                          status=status.HTTP_401_UNAUTHORIZED)
  \<close>
  The two reads of \<^verbatim>\<open>request.data\<close> stand before the \<^verbatim>\<open>try\<close>, so their exception
  escapes. Inside it only \<^verbatim>\<open>DoesNotExist\<close> is caught; any other exception of the lookup
  escapes as well.
\<close>

definition login_ok :: Response where
  "login_ok = \<lparr>status = HTTP_200_OK, body = JsonSuccess True\<rparr>"

definition login_failed :: Response where
  "login_failed = \<lparr>status = HTTP_401_UNAUTHORIZED, body = JsonError ''Invalid email or password''\<rparr>"

definition login_user :: "store \<Rightarrow> request_body \<Rightarrow> outcome" where
  "login_user db request_body =
     (case data_get request_body ''email'' of
        Inl e \<Rightarrow> (Inl e, db)
      | Inr em \<Rightarrow>
          (case data_get request_body ''password'' of
             Inl e \<Rightarrow> (Inl e, db)
           | Inr pw \<Rightarrow>
               (case objects_get db em pw of
                  Inr user \<Rightarrow> (Inr login_ok, db)
                | Inl DoesNotExist \<Rightarrow> (Inr login_failed, db)
                | Inl e \<Rightarrow> (Inl e, db))))"

section \<open>The registration view\<close>

text \<open>
  Modelled from the spec: \<^verbatim>\<open>UserSerializer\<close>, whose module accounts/serializers.py is
  not among the sources. The spec (4.1) says that registration "validates input against
  the data model; on success, persists a new User", that validation fails on a duplicate
  or malformed email, and (3) that the password is stored verbatim. Its constraint reads
  "email must be syntactically valid and unique; password is unconstrained otherwise".
  So both fields must be there; the email must be a value of its column (not empty, no
  longer than the column's \<^verbatim>\<open>max_length\<close>), pass the syntax check of \<^verbatim>\<open>EmailField\<close> and
  be absent from the table; every password string is accepted. The syntax check itself is
  a parameter \<open>validate_email\<close>: it belongs to the framework, and the spec only calls it
  "syntactically valid". The errors are reported per field, by kind.
\<close>

definition well_formed_email :: "(string \<Rightarrow> bool) \<Rightarrow> string \<Rightarrow> bool" where
  "well_formed_email validate_email e =
     (e \<noteq> [] \<and> length e \<le> email_max_length \<and> validate_email e)"

definition email_errors :: "(string \<Rightarrow> bool) \<Rightarrow> store \<Rightarrow> string option \<Rightarrow> verror list" where
  "email_errors validate_email db v =
     (case v of
        None \<Rightarrow> [Required]
      | Some e \<Rightarrow>
          if e = [] then [Blank]
          else (if email_max_length < length e then [MaxLength] else [])
             @ (if validate_email e then [] else [Invalid])
             @ (if e \<in> set (emails db) then [NotUnique] else []))"

definition password_errors :: "string option \<Rightarrow> verror list" where
  "password_errors v =
     (case v of
        None \<Rightarrow> [Required]
      | Some p \<Rightarrow> [])"

definition serializer_errors ::
  "(string \<Rightarrow> bool) \<Rightarrow> store \<Rightarrow> request_data \<Rightarrow> (string \<times> verror list) list" where
  "serializer_errors validate_email db request_data =
     filter (\<lambda>(field, errs). errs \<noteq> [])
       [(''email'', email_errors validate_email db (request_data ''email'')),
        (''password'', password_errors (request_data ''password''))]"

definition is_valid :: "(string \<Rightarrow> bool) \<Rightarrow> store \<Rightarrow> request_data \<Rightarrow> bool" where
  "is_valid validate_email db request_data =
     (serializer_errors validate_email db request_data = [])"

text \<open>
  Modelled from the spec: \<^verbatim>\<open>serializer.save()\<close> (same absent module), which "persists a
  new User" from the two fields as they were sent. A field that is not there would be
  stored as \<^verbatim>\<open>NULL\<close>, which the \<^verbatim>\<open>NOT NULL\<close> columns refuse.
\<close>

definition serializer_save :: "store \<Rightarrow> request_data \<Rightarrow> exn + store" where
  "serializer_save db request_data =
     (case (request_data ''email'', request_data ''password'') of
        (Some e, Some p) \<Rightarrow> objects_create db \<lparr>email = e, password = p\<rparr>
      | _ \<Rightarrow> Inl IntegrityError)"

text \<open>
  \<^verbatim>\<open>
  def register_user(request):
      serializer = UserSerializer(data=request.data)
      if serializer.is_valid():
          serializer.save()
          return Response({"message": "User registered successfully!"},
                          status=status.HTTP_201_CREATED)
      return Response(serializer.errors, status=status.HTTP_400_BAD_REQUEST)
  \<close>
  An exception of \<^verbatim>\<open>save\<close> is not caught and leaves the table as it was.
\<close>

definition register_ok :: Response where
  "register_ok = \<lparr>status = HTTP_201_CREATED, body = JsonMessage ''User registered successfully!''\<rparr>"

definition register_user :: "(string \<Rightarrow> bool) \<Rightarrow> store \<Rightarrow> request_data \<Rightarrow> outcome" where
  "register_user validate_email db request_data =
     (if is_valid validate_email db request_data then
        (case serializer_save db request_data of
           Inr db' \<Rightarrow> (Inr register_ok, db')
         | Inl e \<Rightarrow> (Inl e, db))
      else
        (Inr \<lparr>status = HTTP_400_BAD_REQUEST,
              body = JsonErrors (serializer_errors validate_email db request_data)\<rparr>, db))"

section \<open>Sequences of requests\<close>

text \<open>
  Modelled from the spec: the routing (urls.py is not among the sources). The spec (6)
  names two endpoints, \<^verbatim>\<open>POST /register\<close> and \<^verbatim>\<open>POST /login\<close>, each served by its
  view; requests are handled one after the other (5). A registration carries the fields
  of its object body, a login its body whatever it is.
\<close>

datatype request = Register request_data | Login request_body

fun handle :: "(string \<Rightarrow> bool) \<Rightarrow> store \<Rightarrow> request \<Rightarrow> outcome" where
  "handle validate_email db (Register d) = register_user validate_email db d"
| "handle validate_email db (Login b) = login_user db b"

fun run :: "(string \<Rightarrow> bool) \<Rightarrow> store \<Rightarrow> request list \<Rightarrow> store" where
  "run validate_email db [] = db"
| "run validate_email db (r # rs) = run validate_email (snd (handle validate_email db r)) rs"

text \<open>
  A syntax check to run the examples with: it asks for an \<^verbatim>\<open>@\<close> sign and nothing more.
\<close>

definition contains_at :: "string \<Rightarrow> bool" where
  "contains_at e = (CHR ''@'' \<in> set e)"

section \<open>Properties of the lookup\<close>

lemma filter_email_le_one:
  "distinct (map email db) \<Longrightarrow> length (filter (\<lambda>u. email u = e) db) \<le> 1"
proof (induction db)
  case Nil
  then show ?case by simp
next
  case (Cons u db)
  show ?case
  proof (cases "email u = e")
    case True
    with Cons.prems have "e \<notin> email ` set db" by auto
    then have "filter (\<lambda>u. email u = e) db = []"
      by (auto simp: filter_empty_conv)
    with True show ?thesis by simp
  next
    case False
    with Cons show ?thesis by simp
  qed
qed

lemma objects_filter_le_one:
  assumes "unique_emails db"
  shows "length (objects_filter db em pw) \<le> 1"
proof (cases em)
  case None
  then show ?thesis by (simp add: objects_filter_def exact_def)
next
  case (Some e)
  have "length (objects_filter db em pw)
        = length (filter (\<lambda>u. exact (password u) pw) (filter (\<lambda>u. email u = e) db))"
    using Some by (simp add: objects_filter_def exact_def conj_commute)
  also have "\<dots> \<le> length (filter (\<lambda>u. email u = e) db)"
    by (rule length_filter_le)
  also have "\<dots> \<le> 1"
    using assms filter_email_le_one [of db e] by (simp add: unique_emails_def emails_def)
  finally show ?thesis .
qed

lemma objects_filter_empty_iff:
  "objects_filter db (Some e) (Some p) = [] \<longleftrightarrow> \<not> (\<exists>u \<in> set db. email u = e \<and> password u = p)"
  by (auto simp: objects_filter_def exact_def filter_empty_conv)

lemma objects_get_cases:
  assumes "unique_emails db"
  shows "objects_get db em pw =
           (case objects_filter db em pw of [] \<Rightarrow> Inl DoesNotExist | u # _ \<Rightarrow> Inr u)"
proof -
  from assms have "length (objects_filter db em pw) \<le> 1"
    by (rule objects_filter_le_one)
  then show ?thesis
    by (cases "objects_filter db em pw" rule: list.exhaust)
       (auto simp: objects_get_def split: list.splits)
qed

lemma login_user_JsonOther: "login_user db JsonOther = (Inl AttributeError, db)"
  by (simp add: login_user_def data_get_def)

lemma login_user_JsonObject:
  "login_user db (JsonObject d) =
     (case objects_get db (d ''email'') (d ''password'') of
        Inr user \<Rightarrow> (Inr login_ok, db)
      | Inl DoesNotExist \<Rightarrow> (Inr login_failed, db)
      | Inl e \<Rightarrow> (Inl e, db))"
  by (simp add: login_user_def data_get_def)

lemma login_user_by_filter:
  assumes "unique_emails db"
  shows "login_user db (JsonObject request_data) =
           (if objects_filter db (request_data ''email'') (request_data ''password'') = []
            then (Inr login_failed, db) else (Inr login_ok, db))"
  using objects_get_cases [OF assms]
  by (simp add: login_user_JsonObject split: list.splits)

lemma objects_filter_None_email: "objects_filter db None pw = []"
  by (simp add: objects_filter_def exact_def)

lemma objects_filter_None_password: "objects_filter db em None = []"
  by (simp add: objects_filter_def exact_def)

lemma login_user_no_row:
  assumes "objects_filter db (d ''email'') (d ''password'') = []"
  shows "login_user db (JsonObject d)
           = (Inr \<lparr>status = 401, body = JsonError ''Invalid email or password''\<rparr>, db)"
  using assms
  by (simp add: login_user_JsonObject objects_get_def login_failed_def HTTP_401_UNAUTHORIZED_def)

lemma login_user_store: "snd (login_user db b) = db"
  by (cases b)
     (simp_all add: login_user_JsonObject login_user_JsonOther split: sum.splits exn.splits)

text \<open>
  The exception that the view does not catch escapes it: on a list with the same row
  twice (which no table with the unique index can be) the lookup raises it.
\<close>

lemma login_user_lets_multiple_escape:
  assumes "objects_get db (d ''email'') (d ''password'') = Inl MultipleObjectsReturned"
  shows "fst (login_user db (JsonObject d)) = Inl MultipleObjectsReturned"
  using assms by (simp add: login_user_JsonObject)

lemma login_user_on_duplicate_rows:
  "login_user [\<lparr>email = ''a@b.com'', password = ''x''\<rparr>, \<lparr>email = ''a@b.com'', password = ''x''\<rparr>]
     (JsonObject [''email'' \<mapsto> ''a@b.com'', ''password'' \<mapsto> ''x''])
   = (Inl MultipleObjectsReturned,
      [\<lparr>email = ''a@b.com'', password = ''x''\<rparr>, \<lparr>email = ''a@b.com'', password = ''x''\<rparr>])"
  by (simp add: login_user_JsonObject objects_get_def objects_filter_def exact_def)

lemma login_user_never_multiple:
  assumes "unique_emails db"
  shows "fst (login_user db b) \<noteq> Inl MultipleObjectsReturned"
proof (cases b)
  case (JsonObject d)
  with assms show ?thesis
    by (simp add: login_user_by_filter)
next
  case JsonOther
  then show ?thesis
    by (simp add: login_user_JsonOther)
qed

section \<open>Properties of validation and registration\<close>

lemma email_errors_empty_iff:
  "email_errors validate_email db v = []
     \<longleftrightarrow> (\<exists>e. v = Some e \<and> well_formed_email validate_email e \<and> e \<notin> set (emails db))"
  by (cases v) (auto simp: email_errors_def well_formed_email_def)

lemma password_errors_empty_iff:
  "password_errors v = [] \<longleftrightarrow> (\<exists>p. v = Some p)"
  by (cases v) (auto simp: password_errors_def)

lemma is_valid_iff:
  "is_valid validate_email db d
     \<longleftrightarrow> email_errors validate_email db (d ''email'') = [] \<and> password_errors (d ''password'') = []"
  by (simp add: is_valid_def serializer_errors_def)

lemma is_valid_fields:
  assumes "is_valid validate_email db d"
  obtains e p where "d ''email'' = Some e" and "d ''password'' = Some p"
    and "well_formed_email validate_email e" and "e \<notin> set (emails db)"
  using assms unfolding is_valid_iff email_errors_empty_iff password_errors_empty_iff
  by blast

lemma register_user_valid:
  assumes "is_valid validate_email db d"
    and "d ''email'' = Some e" and "d ''password'' = Some p"
  shows "register_user validate_email db d = (Inr register_ok, db @ [\<lparr>email = e, password = p\<rparr>])"
proof -
  from assms have "e \<notin> set (emails db)"
    by (auto simp: is_valid_iff email_errors_empty_iff)
  then have "serializer_save db d = Inr (db @ [\<lparr>email = e, password = p\<rparr>])"
    using assms(2,3) by (simp add: serializer_save_def objects_create_def)
  with assms(1) show ?thesis
    by (simp add: register_user_def)
qed

lemma register_user_invalid:
  assumes "\<not> is_valid validate_email db d"
  shows "register_user validate_email db d
           = (Inr \<lparr>status = 400, body = JsonErrors (serializer_errors validate_email db d)\<rparr>, db)"
  using assms by (simp add: register_user_def HTTP_400_BAD_REQUEST_def)

lemma register_user_created_iff:
  "(\<exists>r. fst (register_user validate_email db d) = Inr r \<and> status r = 201)
     \<longleftrightarrow> is_valid validate_email db d"
proof (cases "is_valid validate_email db d")
  case True
  then obtain e p where "d ''email'' = Some e" and "d ''password'' = Some p"
    by (rule is_valid_fields)
  with True show ?thesis
    by (simp add: register_user_valid register_ok_def HTTP_201_CREATED_def)
next
  case False
  then show ?thesis
    by (simp add: register_user_invalid)
qed

lemma login_user_finds_new_row:
  assumes "e \<notin> set (emails db)"
    and "d ''email'' = Some e" and "d ''password'' = Some p"
  shows "login_user (db @ [\<lparr>email = e, password = p\<rparr>]) (JsonObject d)
           = (Inr login_ok, db @ [\<lparr>email = e, password = p\<rparr>])"
proof -
  from assms(1) have "filter (\<lambda>u. email u = e \<and> password u = p) db = []"
    by (auto simp: filter_empty_conv emails_def)
  then have "objects_filter (db @ [\<lparr>email = e, password = p\<rparr>]) (Some e) (Some p)
               = [\<lparr>email = e, password = p\<rparr>]"
    by (simp add: objects_filter_def exact_def)
  with assms(2,3) show ?thesis
    by (simp add: login_user_JsonObject objects_get_def)
qed

lemma objects_create_unique_emails:
  assumes "unique_emails db" and "objects_create db u = Inr db'"
  shows "unique_emails db'"
  using assms
  by (auto simp: objects_create_def unique_emails_def emails_def split: if_splits)

lemma objects_create_appends:
  assumes "objects_create db u = Inr db'"
  shows "db' = db @ [u]"
  using assms by (simp add: objects_create_def split: if_splits)

lemma register_user_store:
  "snd (register_user validate_email db d) = db
   \<or> (\<exists>u. objects_create db u = Inr (snd (register_user validate_email db d)))"
  by (auto simp: register_user_def serializer_save_def split: sum.splits option.splits)

lemma register_user_unique_emails:
  assumes "unique_emails db"
  shows "unique_emails (snd (register_user validate_email db d))"
  using assms register_user_store [of validate_email db d]
  by (auto dest: objects_create_unique_emails)

lemma handle_unique_emails:
  assumes "unique_emails db"
  shows "unique_emails (snd (handle validate_email db r))"
  using assms by (cases r) (simp_all add: register_user_unique_emails login_user_store)

lemma run_unique_emails:
  assumes "unique_emails db"
  shows "unique_emails (run validate_email db rs)"
  using assms
proof (induction rs arbitrary: db)
  case Nil
  then show ?case by simp
next
  case (Cons r rs)
  from Cons.prems have "unique_emails (snd (handle validate_email db r))"
    by (rule handle_unique_emails)
  then have "unique_emails (run validate_email (snd (handle validate_email db r)) rs)"
    by (rule Cons.IH)
  then show ?case by simp
qed

lemma unique_emails_init_store: "unique_emails init_store"
  by (simp add: unique_emails_def emails_def init_store_def)

lemma handle_appends:
  "\<exists>new. snd (handle validate_email db r) = db @ new \<and> length new \<le> 1"
proof (cases r)
  case (Register d)
  from register_user_store [of validate_email db d] show ?thesis
  proof
    assume "snd (register_user validate_email db d) = db"
    with Register show ?thesis by simp
  next
    assume "\<exists>u. objects_create db u = Inr (snd (register_user validate_email db d))"
    then obtain u where "snd (register_user validate_email db d) = db @ [u]"
      by (auto dest: objects_create_appends)
    with Register show ?thesis by simp
  qed
next
  case (Login b)
  then show ?thesis by (simp add: login_user_store)
qed

section \<open>Claims about the login view\<close>

text \<open>
  C1. For every table that obeys its uniqueness constraint and every login request whose
  body carries an email string and a password string, the login view answers 200 with
  \<^verbatim>\<open>{"success": true}\<close> if and only if some row holds exactly that email and exactly
  that password; otherwise it answers 401 with the generic error body.
\<close>

theorem login_user_success_iff_row:
  assumes "unique_emails db"
    and "request_data ''email'' = Some e"
    and "request_data ''password'' = Some p"
  shows "(fst (login_user db (JsonObject request_data)) = Inr \<lparr>status = 200, body = JsonSuccess True\<rparr>
            \<longleftrightarrow> (\<exists>u \<in> set db. email u = e \<and> password u = p))
       \<and> (\<not> (\<exists>u \<in> set db. email u = e \<and> password u = p)
            \<longrightarrow> fst (login_user db (JsonObject request_data))
                = Inr \<lparr>status = 401, body = JsonError ''Invalid email or password''\<rparr>)"
proof (cases "objects_filter db (Some e) (Some p) = []")
  case True
  with assms show ?thesis
    using objects_filter_empty_iff [of db e p]
    by (simp add: login_user_by_filter login_failed_def login_ok_def
        HTTP_200_OK_def HTTP_401_UNAUTHORIZED_def)
next
  case False
  with assms show ?thesis
    using objects_filter_empty_iff [of db e p]
    by (simp add: login_user_by_filter login_failed_def login_ok_def
        HTTP_200_OK_def HTTP_401_UNAUTHORIZED_def)
qed

theorem login_user_success_iff_row_witness:
  "unique_emails [\<lparr>email = ''a@b.com'', password = ''x''\<rparr>]
   \<and> fst (login_user [\<lparr>email = ''a@b.com'', password = ''x''\<rparr>]
             (JsonObject [''email'' \<mapsto> ''a@b.com'', ''password'' \<mapsto> ''x'']))
       = Inr \<lparr>status = 200, body = JsonSuccess True\<rparr>
   \<and> fst (login_user [\<lparr>email = ''a@b.com'', password = ''x''\<rparr>]
             (JsonObject [''email'' \<mapsto> ''a@b.com'', ''password'' \<mapsto> ''y'']))
       = Inr \<lparr>status = 401, body = JsonError ''Invalid email or password''\<rparr>"
proof -
  have u: "unique_emails [\<lparr>email = ''a@b.com'', password = ''x''\<rparr>]"
    by (simp add: unique_emails_def emails_def)
  show ?thesis
    using u
      login_user_success_iff_row [OF u, of "[''email'' \<mapsto> ''a@b.com'', ''password'' \<mapsto> ''x'']"
        "''a@b.com''" "''x''"]
      login_user_success_iff_row [OF u, of "[''email'' \<mapsto> ''a@b.com'', ''password'' \<mapsto> ''y'']"
        "''a@b.com''" "''y''"]
    by simp
qed
text \<open>
  C4. On every table, a login with a registered email and a wrong password and a login
  with an email that no row holds get the same answer: status 401 and the same error
  body, so the caller cannot tell the two causes apart.
\<close>

theorem login_user_failures_indistinguishable:
  assumes "da ''email'' = Some ea" and "da ''password'' = Some pa"
    and "ea \<in> set (emails db)"
    and "\<not> (\<exists>u \<in> set db. email u = ea \<and> password u = pa)"
    and "dc ''email'' = Some ec"
    and "ec \<notin> set (emails db)"
  shows "fst (login_user db (JsonObject da)) = fst (login_user db (JsonObject dc))
       \<and> fst (login_user db (JsonObject da))
           = Inr \<lparr>status = 401, body = JsonError ''Invalid email or password''\<rparr>"
proof -
  from assms(1,2,4) have "objects_filter db (da ''email'') (da ''password'') = []"
    by (simp add: objects_filter_def exact_def filter_empty_conv)
  then have 1: "login_user db (JsonObject da)
      = (Inr \<lparr>status = 401, body = JsonError ''Invalid email or password''\<rparr>, db)"
    by (rule login_user_no_row)
  from assms(5,6) have "objects_filter db (dc ''email'') (dc ''password'') = []"
    by (auto simp: objects_filter_def exact_def filter_empty_conv emails_def)
  then have 2: "login_user db (JsonObject dc)
      = (Inr \<lparr>status = 401, body = JsonError ''Invalid email or password''\<rparr>, db)"
    by (rule login_user_no_row)
  from 1 2 show ?thesis by simp
qed

theorem login_user_failures_indistinguishable_witness:
  "''a@b.com'' \<in> set (emails [\<lparr>email = ''a@b.com'', password = ''x''\<rparr>])
   \<and> ''c@d.org'' \<notin> set (emails [\<lparr>email = ''a@b.com'', password = ''x''\<rparr>])
   \<and> fst (login_user [\<lparr>email = ''a@b.com'', password = ''x''\<rparr>]
            (JsonObject [''email'' \<mapsto> ''a@b.com'', ''password'' \<mapsto> ''y'']))
       = fst (login_user [\<lparr>email = ''a@b.com'', password = ''x''\<rparr>]
            (JsonObject [''email'' \<mapsto> ''c@d.org'', ''password'' \<mapsto> ''x'']))
   \<and> fst (login_user [\<lparr>email = ''a@b.com'', password = ''x''\<rparr>]
            (JsonObject [''email'' \<mapsto> ''a@b.com'', ''password'' \<mapsto> ''y'']))
       = Inr \<lparr>status = 401, body = JsonError ''Invalid email or password''\<rparr>"
proof -
  have 1: "[''email'' \<mapsto> ''a@b.com'', ''password'' \<mapsto> ''y''] ''email'' = Some ''a@b.com''"
    by simp
  have 2: "[''email'' \<mapsto> ''a@b.com'', ''password'' \<mapsto> ''y''] ''password'' = Some ''y''"
    by simp
  have 3: "''a@b.com'' \<in> set (emails [\<lparr>email = ''a@b.com'', password = ''x''\<rparr>])"
    by (simp add: emails_def)
  have 4: "\<not> (\<exists>u \<in> set [\<lparr>email = ''a@b.com'', password = ''x''\<rparr>].
                 email u = ''a@b.com'' \<and> password u = ''y'')"
    by simp
  have 5: "[''email'' \<mapsto> ''c@d.org'', ''password'' \<mapsto> ''x''] ''email'' = Some ''c@d.org''"
    by simp
  have 6: "''c@d.org'' \<notin> set (emails [\<lparr>email = ''a@b.com'', password = ''x''\<rparr>])"
    by (simp add: emails_def)
  note login_user_failures_indistinguishable
    [where da = "[''email'' \<mapsto> ''a@b.com'', ''password'' \<mapsto> ''y'']"
       and dc = "[''email'' \<mapsto> ''c@d.org'', ''password'' \<mapsto> ''x'']"
       and db = "[\<lparr>email = ''a@b.com'', password = ''x''\<rparr>]"
       and ea = "''a@b.com''" and pa = "''y''" and ec = "''c@d.org''"]
  with 1 2 3 4 5 6 show ?thesis
    by blast
qed

text \<open>
  C9. A login request whose body is an object that lacks the email field, the password
  field, or both is treated like any pair that matches no row: the missing field is read
  as an absent value, the lookup finds no row, and the view answers with the same generic
  401 response (so neither a 400 nor an escaping exception), on every list of rows.
\<close>

theorem login_user_missing_field:
  assumes "d ''email'' = None \<or> d ''password'' = None"
  shows "objects_filter db (d ''email'') (d ''password'') = []
       \<and> login_user db (JsonObject d)
           = (Inr \<lparr>status = 401, body = JsonError ''Invalid email or password''\<rparr>, db)"
proof -
  from assms have "objects_filter db (d ''email'') (d ''password'') = []"
    by (auto simp: objects_filter_None_email objects_filter_None_password)
  then show ?thesis
    by (simp add: login_user_no_row)
qed

theorem login_user_missing_field_witness:
  "[''email'' \<mapsto> ''a@b.com''] ''password'' = None
   \<and> login_user [\<lparr>email = ''a@b.com'', password = ''x''\<rparr>] (JsonObject [''email'' \<mapsto> ''a@b.com''])
       = (Inr \<lparr>status = 401, body = JsonError ''Invalid email or password''\<rparr>,
          [\<lparr>email = ''a@b.com'', password = ''x''\<rparr>])
   \<and> login_user [\<lparr>email = ''a@b.com'', password = ''x''\<rparr>] (JsonObject Map.empty)
       = (Inr \<lparr>status = 401, body = JsonError ''Invalid email or password''\<rparr>,
          [\<lparr>email = ''a@b.com'', password = ''x''\<rparr>])"
proof -
  have 1: "[''email'' \<mapsto> ''a@b.com''] ''password'' = None"
    by simp
  note login_user_missing_field
    [where d = "[''email'' \<mapsto> ''a@b.com'']" and db = "[\<lparr>email = ''a@b.com'', password = ''x''\<rparr>]"]
    login_user_missing_field
    [where d = "Map.empty" and db = "[\<lparr>email = ''a@b.com'', password = ''x''\<rparr>]"]
  with 1 show ?thesis
    by blast
qed

text \<open>
  C10. The login view is not total under the uniqueness invariant alone: the two reads
  \<^verbatim>\<open>request.data.get\<close> stand outside the \<^verbatim>\<open>try\<close>, and on a body that is not an object
  (here on a table with one row) they raise \<^verbatim>\<open>AttributeError\<close>, which escapes the view.
\<close>

theorem login_user_not_total_on_other_body:
  "unique_emails [\<lparr>email = ''a@b.com'', password = ''x''\<rparr>]
   \<and> login_user [\<lparr>email = ''a@b.com'', password = ''x''\<rparr>] JsonOther
       = (Inl AttributeError, [\<lparr>email = ''a@b.com'', password = ''x''\<rparr>])"
  by (simp add: unique_emails_def emails_def login_user_def data_get_def)

text \<open>
  C10, as amended. Under the uniqueness invariant the login view is total on object
  bodies. It catches only the no-matching-row error; since the lookup by email and
  password then never finds more than one row, the multiple-results error is never raised
  (for no body does it escape the view), and a login whose body is an object, with its
  email and password fields strings or absent, always answers 200 or 401. This holds in
  particular on every table that a sequence of requests builds from the empty one.
\<close>

theorem login_user_total_under_unique_emails:
  assumes "unique_emails db"
  shows "length (objects_filter db (d ''email'') (d ''password'')) \<le> 1
       \<and> objects_get db (d ''email'') (d ''password'') \<noteq> Inl MultipleObjectsReturned
       \<and> fst (login_user db b) \<noteq> Inl MultipleObjectsReturned
       \<and> (fst (login_user db (JsonObject d)) = Inr \<lparr>status = 200, body = JsonSuccess True\<rparr>
          \<or> fst (login_user db (JsonObject d))
              = Inr \<lparr>status = 401, body = JsonError ''Invalid email or password''\<rparr>)
       \<and> (fst (login_user (run validate_email init_store rs) (JsonObject d))
              = Inr \<lparr>status = 200, body = JsonSuccess True\<rparr>
          \<or> fst (login_user (run validate_email init_store rs) (JsonObject d))
              = Inr \<lparr>status = 401, body = JsonError ''Invalid email or password''\<rparr>)"
proof -
  have total: "fst (login_user s (JsonObject d)) = Inr \<lparr>status = 200, body = JsonSuccess True\<rparr>
      \<or> fst (login_user s (JsonObject d))
          = Inr \<lparr>status = 401, body = JsonError ''Invalid email or password''\<rparr>"
    if "unique_emails s" for s
    using that
    by (simp add: login_user_by_filter login_ok_def login_failed_def
        HTTP_200_OK_def HTTP_401_UNAUTHORIZED_def)
  have "length (objects_filter db (d ''email'') (d ''password'')) \<le> 1"
    using assms by (rule objects_filter_le_one)
  moreover have "objects_get db (d ''email'') (d ''password'') \<noteq> Inl MultipleObjectsReturned"
    using assms by (simp add: objects_get_cases split: list.splits)
  moreover have "fst (login_user db b) \<noteq> Inl MultipleObjectsReturned"
    using assms by (rule login_user_never_multiple)
  moreover note total [OF assms]
  moreover have "unique_emails (run validate_email init_store rs)"
    using unique_emails_init_store by (rule run_unique_emails)
  then have "fst (login_user (run validate_email init_store rs) (JsonObject d))
        = Inr \<lparr>status = 200, body = JsonSuccess True\<rparr>
      \<or> fst (login_user (run validate_email init_store rs) (JsonObject d))
        = Inr \<lparr>status = 401, body = JsonError ''Invalid email or password''\<rparr>"
    by (rule total)
  ultimately show ?thesis by blast
qed

theorem login_user_total_under_unique_emails_witness:
  "unique_emails [\<lparr>email = ''a@b.com'', password = ''x''\<rparr>, \<lparr>email = ''c@d.org'', password = ''x''\<rparr>]
   \<and> length (objects_filter
        [\<lparr>email = ''a@b.com'', password = ''x''\<rparr>, \<lparr>email = ''c@d.org'', password = ''x''\<rparr>]
        (Some ''a@b.com'') (Some ''x'')) \<le> 1
   \<and> objects_get
        [\<lparr>email = ''a@b.com'', password = ''x''\<rparr>, \<lparr>email = ''c@d.org'', password = ''x''\<rparr>]
        (Some ''a@b.com'') (Some ''x'') \<noteq> Inl MultipleObjectsReturned
   \<and> fst (login_user
        [\<lparr>email = ''a@b.com'', password = ''x''\<rparr>, \<lparr>email = ''c@d.org'', password = ''x''\<rparr>]
        (JsonObject [''email'' \<mapsto> ''a@b.com'', ''password'' \<mapsto> ''x'']))
       = Inr \<lparr>status = 200, body = JsonSuccess True\<rparr>"
proof -
  have u: "unique_emails
      [\<lparr>email = ''a@b.com'', password = ''x''\<rparr>, \<lparr>email = ''c@d.org'', password = ''x''\<rparr>]"
    by (simp add: unique_emails_def emails_def)
  have ne: "fst (login_user
        [\<lparr>email = ''a@b.com'', password = ''x''\<rparr>, \<lparr>email = ''c@d.org'', password = ''x''\<rparr>]
        (JsonObject [''email'' \<mapsto> ''a@b.com'', ''password'' \<mapsto> ''x'']))
       \<noteq> Inr \<lparr>status = 401, body = JsonError ''Invalid email or password''\<rparr>"
    by (simp add: login_user_def data_get_def objects_get_def objects_filter_def exact_def
        login_ok_def HTTP_200_OK_def)
  note login_user_total_under_unique_emails
    [where db = "[\<lparr>email = ''a@b.com'', password = ''x''\<rparr>, \<lparr>email = ''c@d.org'', password = ''x''\<rparr>]"
       and d = "[''email'' \<mapsto> ''a@b.com'', ''password'' \<mapsto> ''x'']"
       and b = JsonOther and validate_email = contains_at and rs = "[]"]
  with u ne have
    "length (objects_filter
        [\<lparr>email = ''a@b.com'', password = ''x''\<rparr>, \<lparr>email = ''c@d.org'', password = ''x''\<rparr>]
        ([''email'' \<mapsto> ''a@b.com'', ''password'' \<mapsto> ''x''] ''email'')
        ([''email'' \<mapsto> ''a@b.com'', ''password'' \<mapsto> ''x''] ''password'')) \<le> 1"
    and "objects_get
        [\<lparr>email = ''a@b.com'', password = ''x''\<rparr>, \<lparr>email = ''c@d.org'', password = ''x''\<rparr>]
        ([''email'' \<mapsto> ''a@b.com'', ''password'' \<mapsto> ''x''] ''email'')
        ([''email'' \<mapsto> ''a@b.com'', ''password'' \<mapsto> ''x''] ''password'')
       \<noteq> Inl MultipleObjectsReturned"
    and "fst (login_user
        [\<lparr>email = ''a@b.com'', password = ''x''\<rparr>, \<lparr>email = ''c@d.org'', password = ''x''\<rparr>]
        (JsonObject [''email'' \<mapsto> ''a@b.com'', ''password'' \<mapsto> ''x'']))
       = Inr \<lparr>status = 200, body = JsonSuccess True\<rparr>"
    by blast+
  with u show ?thesis
    by simp
qed

section \<open>Claims about the registration view\<close>

text \<open>
  C2. For every email that registration accepts and that is not already present in the
  table, and every password that registration accepts, registering the pair answers 201
  "created", and a login with the same pair on the table that registration leaves answers
  200 with \<^verbatim>\<open>{"success": true}\<close>.
\<close>

theorem register_then_login_succeeds:
  assumes "d ''email'' = Some e" and "d ''password'' = Some p"
    and "e \<notin> set (emails db)"
    and "well_formed_email validate_email e"
    and "password_errors (Some p) = []"
  shows "fst (register_user validate_email db d)
           = Inr \<lparr>status = 201, body = JsonMessage ''User registered successfully!''\<rparr>
       \<and> fst (login_user (snd (register_user validate_email db d)) (JsonObject d))
           = Inr \<lparr>status = 200, body = JsonSuccess True\<rparr>"
proof -
  from assms have "is_valid validate_email db d"
    by (simp add: is_valid_iff email_errors_empty_iff)
  then have "register_user validate_email db d
               = (Inr register_ok, db @ [\<lparr>email = e, password = p\<rparr>])"
    using assms(1,2) by (rule register_user_valid)
  moreover have "login_user (db @ [\<lparr>email = e, password = p\<rparr>]) (JsonObject d)
                   = (Inr login_ok, db @ [\<lparr>email = e, password = p\<rparr>])"
    using assms(3,1,2) by (rule login_user_finds_new_row)
  ultimately show ?thesis
    by (simp add: register_ok_def login_ok_def HTTP_201_CREATED_def HTTP_200_OK_def)
qed

theorem register_then_login_succeeds_witness:
  "[''email'' \<mapsto> ''a@b.com'', ''password'' \<mapsto> ''x''] ''email'' = Some ''a@b.com''
   \<and> ''a@b.com'' \<notin> set (emails init_store)
   \<and> well_formed_email contains_at ''a@b.com''
   \<and> password_errors (Some ''x'') = []
   \<and> fst (register_user contains_at init_store [''email'' \<mapsto> ''a@b.com'', ''password'' \<mapsto> ''x''])
       = Inr \<lparr>status = 201, body = JsonMessage ''User registered successfully!''\<rparr>
   \<and> fst (login_user
            (snd (register_user contains_at init_store
                    [''email'' \<mapsto> ''a@b.com'', ''password'' \<mapsto> ''x'']))
            (JsonObject [''email'' \<mapsto> ''a@b.com'', ''password'' \<mapsto> ''x'']))
       = Inr \<lparr>status = 200, body = JsonSuccess True\<rparr>"
proof -
  have 1: "[''email'' \<mapsto> ''a@b.com'', ''password'' \<mapsto> ''x''] ''email'' = Some ''a@b.com''"
    by simp
  have 2: "[''email'' \<mapsto> ''a@b.com'', ''password'' \<mapsto> ''x''] ''password'' = Some ''x''"
    by simp
  have 3: "''a@b.com'' \<notin> set (emails init_store)"
    by (simp add: emails_def init_store_def)
  have 4: "well_formed_email contains_at ''a@b.com''"
    by (simp add: well_formed_email_def contains_at_def email_max_length_def)
  have 5: "password_errors (Some ''x'') = []"
    by (simp add: password_errors_def)
  from 1 3 4 5 register_then_login_succeeds [OF 1 2 3 4 5] show ?thesis
    by blast
qed

text \<open>
  C3. For every registration request, if the email is malformed or already present in the
  table, the registration view answers 400 with the validation errors (which name the
  email field), not 201; and registration answers 201 only when validation succeeds.
\<close>

theorem register_user_rejects_bad_email:
  "(d ''email'' = Some e
      \<and> (\<not> well_formed_email validate_email e \<or> e \<in> set (emails db))
    \<longrightarrow> fst (register_user validate_email db d)
          = Inr \<lparr>status = 400, body = JsonErrors (serializer_errors validate_email db d)\<rparr>
        \<and> ''email'' \<in> fst ` set (serializer_errors validate_email db d))
   \<and> (\<forall>r. fst (register_user validate_email db d) = Inr r \<and> status r = 201
          \<longrightarrow> is_valid validate_email db d)"
proof (intro conjI impI allI)
  assume bad: "d ''email'' = Some e
    \<and> (\<not> well_formed_email validate_email e \<or> e \<in> set (emails db))"
  then have errs: "email_errors validate_email db (d ''email'') \<noteq> []"
    by (auto simp: email_errors_empty_iff)
  then have "\<not> is_valid validate_email db d"
    by (simp add: is_valid_iff)
  then show "fst (register_user validate_email db d)
      = Inr \<lparr>status = 400, body = JsonErrors (serializer_errors validate_email db d)\<rparr>"
    by (simp add: register_user_invalid)
  from errs show "''email'' \<in> fst ` set (serializer_errors validate_email db d)"
    by (simp add: serializer_errors_def)
next
  fix r
  assume "fst (register_user validate_email db d) = Inr r \<and> status r = 201"
  then show "is_valid validate_email db d"
    using register_user_created_iff [of validate_email db d] by blast
qed

theorem register_user_rejects_bad_email_witness:
  "\<not> well_formed_email contains_at ''not-an-email''
   \<and> fst (register_user contains_at init_store
            [''email'' \<mapsto> ''not-an-email'', ''password'' \<mapsto> ''x''])
       = Inr \<lparr>status = 400, body = JsonErrors [(''email'', [Invalid])]\<rparr>
   \<and> ''a@b.com'' \<in> set (emails [\<lparr>email = ''a@b.com'', password = ''x''\<rparr>])
   \<and> fst (register_user contains_at [\<lparr>email = ''a@b.com'', password = ''x''\<rparr>]
            [''email'' \<mapsto> ''a@b.com'', ''password'' \<mapsto> ''y''])
       = Inr \<lparr>status = 400, body = JsonErrors [(''email'', [NotUnique])]\<rparr>"
proof -
  have 1: "\<not> well_formed_email contains_at ''not-an-email''"
    by (simp add: well_formed_email_def contains_at_def)
  have 2: "''a@b.com'' \<in> set (emails [\<lparr>email = ''a@b.com'', password = ''x''\<rparr>])"
    by (simp add: emails_def)
  have 3: "serializer_errors contains_at init_store
             [''email'' \<mapsto> ''not-an-email'', ''password'' \<mapsto> ''x''] = [(''email'', [Invalid])]"
    by (simp add: serializer_errors_def email_errors_def password_errors_def contains_at_def
        email_max_length_def emails_def init_store_def)
  have 4: "serializer_errors contains_at [\<lparr>email = ''a@b.com'', password = ''x''\<rparr>]
             [''email'' \<mapsto> ''a@b.com'', ''password'' \<mapsto> ''y''] = [(''email'', [NotUnique])]"
    by (simp add: serializer_errors_def email_errors_def password_errors_def contains_at_def
        email_max_length_def emails_def)
  from 1 2 3 4
    register_user_rejects_bad_email [of "[''email'' \<mapsto> ''not-an-email'', ''password'' \<mapsto> ''x'']"
      "''not-an-email''" contains_at init_store]
    register_user_rejects_bad_email [of "[''email'' \<mapsto> ''a@b.com'', ''password'' \<mapsto> ''y'']"
      "''a@b.com''" contains_at "[\<lparr>email = ''a@b.com'', password = ''x''\<rparr>]"]
  show ?thesis
    by simp
qed

text \<open>
  C6. Registration accepts every password string when the email is valid and fresh: for
  any password, the empty string and arbitrarily long strings included, registering it
  with a well-formed email that the table does not hold is answered with 201, and the
  password is stored as sent.
\<close>

theorem register_user_accepts_every_password:
  assumes "d ''email'' = Some e" and "d ''password'' = Some p"
    and "well_formed_email validate_email e"
    and "e \<notin> set (emails db)"
  shows "register_user validate_email db d
           = (Inr \<lparr>status = 201, body = JsonMessage ''User registered successfully!''\<rparr>,
              db @ [\<lparr>email = e, password = p\<rparr>])"
proof -
  from assms have "is_valid validate_email db d"
    by (simp add: is_valid_iff email_errors_empty_iff password_errors_empty_iff)
  then have "register_user validate_email db d
               = (Inr register_ok, db @ [\<lparr>email = e, password = p\<rparr>])"
    using assms(1,2) by (rule register_user_valid)
  then show ?thesis
    by (simp add: register_ok_def HTTP_201_CREATED_def)
qed

theorem register_user_accepts_every_password_witness:
  "well_formed_email contains_at ''a@b.com''
   \<and> ''a@b.com'' \<notin> set (emails init_store)
   \<and> register_user contains_at init_store [''email'' \<mapsto> ''a@b.com'', ''password'' \<mapsto> []]
       = (Inr \<lparr>status = 201, body = JsonMessage ''User registered successfully!''\<rparr>,
          init_store @ [\<lparr>email = ''a@b.com'', password = []\<rparr>])
   \<and> register_user contains_at init_store
        [''email'' \<mapsto> ''a@b.com'', ''password'' \<mapsto> replicate 1000 (CHR ''x'')]
       = (Inr \<lparr>status = 201, body = JsonMessage ''User registered successfully!''\<rparr>,
          init_store @ [\<lparr>email = ''a@b.com'', password = replicate 1000 (CHR ''x'')\<rparr>])"
proof -
  have 1: "[''email'' \<mapsto> ''a@b.com'', ''password'' \<mapsto> []] ''email'' = Some ''a@b.com''"
    by simp
  have 2: "[''email'' \<mapsto> ''a@b.com'', ''password'' \<mapsto> []] ''password'' = Some []"
    by simp
  have 3: "[''email'' \<mapsto> ''a@b.com'', ''password'' \<mapsto> replicate 1000 (CHR ''x'')] ''email''
             = Some ''a@b.com''"
    by simp
  have 4: "[''email'' \<mapsto> ''a@b.com'', ''password'' \<mapsto> replicate 1000 (CHR ''x'')] ''password''
             = Some (replicate 1000 (CHR ''x''))"
    by simp
  have 5: "well_formed_email contains_at ''a@b.com''"
    by (simp add: well_formed_email_def contains_at_def email_max_length_def)
  have 6: "''a@b.com'' \<notin> set (emails init_store)"
    by (simp add: emails_def init_store_def)
  note register_user_accepts_every_password
    [where d = "[''email'' \<mapsto> ''a@b.com'', ''password'' \<mapsto> []]"
       and e = "''a@b.com''" and p = "[]"
       and validate_email = contains_at and db = init_store]
    register_user_accepts_every_password
    [where d = "[''email'' \<mapsto> ''a@b.com'', ''password'' \<mapsto> replicate 1000 (CHR ''x'')]"
       and e = "''a@b.com''" and p = "replicate 1000 (CHR ''x'')"
       and validate_email = contains_at and db = init_store]
  with 1 2 3 4 5 6 show ?thesis
    by blast
qed

text \<open>
  C8. Registration is atomic on failure: whenever the registration view answers 400, the
  table after the request is the table before it.
\<close>

theorem register_user_failure_keeps_store:
  assumes "fst (register_user validate_email db d) = Inr r" and "status r = 400"
  shows "snd (register_user validate_email db d) = db"
proof (cases "is_valid validate_email db d")
  case True
  then obtain e p where "d ''email'' = Some e" and "d ''password'' = Some p"
    by (rule is_valid_fields)
  with True have "fst (register_user validate_email db d) = Inr register_ok"
    by (simp add: register_user_valid)
  with assms(1) have "status r = 201"
    by (auto simp: register_ok_def HTTP_201_CREATED_def)
  with assms(2) show ?thesis
    by simp
next
  case False
  then show ?thesis
    by (simp add: register_user_invalid)
qed

theorem register_user_failure_keeps_store_witness:
  "fst (register_user contains_at [\<lparr>email = ''a@b.com'', password = ''x''\<rparr>]
          [''email'' \<mapsto> ''a@b.com'', ''password'' \<mapsto> ''y''])
     = Inr \<lparr>status = 400, body = JsonErrors [(''email'', [NotUnique])]\<rparr>
   \<and> snd (register_user contains_at [\<lparr>email = ''a@b.com'', password = ''x''\<rparr>]
          [''email'' \<mapsto> ''a@b.com'', ''password'' \<mapsto> ''y''])
     = [\<lparr>email = ''a@b.com'', password = ''x''\<rparr>]"
proof -
  have 1: "fst (register_user contains_at [\<lparr>email = ''a@b.com'', password = ''x''\<rparr>]
          [''email'' \<mapsto> ''a@b.com'', ''password'' \<mapsto> ''y''])
     = Inr \<lparr>status = 400, body = JsonErrors [(''email'', [NotUnique])]\<rparr>"
    by (simp add: register_user_def is_valid_def serializer_errors_def email_errors_def
      password_errors_def contains_at_def emails_def
      email_max_length_def HTTP_400_BAD_REQUEST_def)
  have 2: "status \<lparr>status = 400, body = JsonErrors [(''email'', [NotUnique])]\<rparr> = 400"
    by simp
  from 1 register_user_failure_keeps_store [OF 1 2] show ?thesis
    by blast
qed

section \<open>Claims about the table\<close>

text \<open>
  C5. The invariant "at most one row per email" holds in the initial, empty table and
  every operation keeps it: from a table that satisfies it, one register or login request,
  and so any sequence of them, leaves a table that satisfies it.
\<close>

theorem unique_emails_invariant:
  "unique_emails init_store
   \<and> (unique_emails db \<longrightarrow>
        unique_emails (snd (register_user validate_email db d))
      \<and> unique_emails (snd (login_user db b))
      \<and> unique_emails (run validate_email db rs))"
  by (simp add: unique_emails_init_store register_user_unique_emails login_user_store
      run_unique_emails)

theorem unique_emails_invariant_witness:
  "unique_emails init_store
   \<and> unique_emails (run contains_at init_store
        [Register [''email'' \<mapsto> ''a@b.com'', ''password'' \<mapsto> ''x''],
         Login (JsonObject [''email'' \<mapsto> ''a@b.com'', ''password'' \<mapsto> ''x'']),
         Register [''email'' \<mapsto> ''a@b.com'', ''password'' \<mapsto> ''y'']])
   \<and> run contains_at init_store
        [Register [''email'' \<mapsto> ''a@b.com'', ''password'' \<mapsto> ''x''],
         Login (JsonObject [''email'' \<mapsto> ''a@b.com'', ''password'' \<mapsto> ''x'']),
         Register [''email'' \<mapsto> ''a@b.com'', ''password'' \<mapsto> ''y'']]
       = [\<lparr>email = ''a@b.com'', password = ''x''\<rparr>]"
proof -
  have 1: "run contains_at init_store
        [Register [''email'' \<mapsto> ''a@b.com'', ''password'' \<mapsto> ''x''],
         Login (JsonObject [''email'' \<mapsto> ''a@b.com'', ''password'' \<mapsto> ''x'']),
         Register [''email'' \<mapsto> ''a@b.com'', ''password'' \<mapsto> ''y'']]
       = [\<lparr>email = ''a@b.com'', password = ''x''\<rparr>]"
    by (simp add: register_user_def login_user_def data_get_def objects_get_def objects_filter_def exact_def
        is_valid_def serializer_errors_def serializer_save_def objects_create_def
        email_errors_def password_errors_def contains_at_def emails_def init_store_def
        email_max_length_def)
  note unique_emails_invariant
    [where db = init_store and validate_email = contains_at
       and rs = "[Register [''email'' \<mapsto> ''a@b.com'', ''password'' \<mapsto> ''x''],
         Login (JsonObject [''email'' \<mapsto> ''a@b.com'', ''password'' \<mapsto> ''x'']),
         Register [''email'' \<mapsto> ''a@b.com'', ''password'' \<mapsto> ''y'']]"]
  with 1 show ?thesis
    by metis
qed

text \<open>
  C7. No operation updates or deletes a row: every request leaves the rows that were
  there, in place, and adds at most one; a login leaves the table as it was; a successful
  registration of email \<open>e\<close> appends one row, which holds \<open>e\<close> and the password sent, and
  so leaves every row whose email differs from \<open>e\<close> as it was.
\<close>

theorem rows_never_updated_or_deleted:
  "(\<exists>new. snd (handle validate_email db rq) = db @ new \<and> length new \<le> 1)
   \<and> snd (login_user db b) = db
   \<and> (\<forall>r. fst (register_user validate_email db d) = Inr r \<and> status r = 201 \<longrightarrow>
        (\<exists>e p. d ''email'' = Some e \<and> d ''password'' = Some p
            \<and> snd (register_user validate_email db d) = db @ [\<lparr>email = e, password = p\<rparr>]
            \<and> filter (\<lambda>u. email u \<noteq> e) (snd (register_user validate_email db d))
                = filter (\<lambda>u. email u \<noteq> e) db))"
proof (intro conjI allI impI)
  show "\<exists>new. snd (handle validate_email db rq) = db @ new \<and> length new \<le> 1"
    by (rule handle_appends)
  show "snd (login_user db b) = db"
    by (rule login_user_store)
next
  fix r
  assume "fst (register_user validate_email db d) = Inr r \<and> status r = 201"
  then have valid: "is_valid validate_email db d"
    using register_user_created_iff [of validate_email db d] by blast
  then obtain e p where ep: "d ''email'' = Some e" "d ''password'' = Some p"
    by (rule is_valid_fields)
  with valid have "snd (register_user validate_email db d) = db @ [\<lparr>email = e, password = p\<rparr>]"
    by (simp add: register_user_valid)
  with ep show "\<exists>e p. d ''email'' = Some e \<and> d ''password'' = Some p
      \<and> snd (register_user validate_email db d) = db @ [\<lparr>email = e, password = p\<rparr>]
      \<and> filter (\<lambda>u. email u \<noteq> e) (snd (register_user validate_email db d))
          = filter (\<lambda>u. email u \<noteq> e) db"
    by simp
qed

theorem rows_never_updated_or_deleted_witness:
  "fst (register_user contains_at [\<lparr>email = ''a@b.com'', password = ''x''\<rparr>]
          [''email'' \<mapsto> ''c@d.org'', ''password'' \<mapsto> ''z''])
     = Inr \<lparr>status = 201, body = JsonMessage ''User registered successfully!''\<rparr>
   \<and> snd (register_user contains_at [\<lparr>email = ''a@b.com'', password = ''x''\<rparr>]
          [''email'' \<mapsto> ''c@d.org'', ''password'' \<mapsto> ''z''])
     = [\<lparr>email = ''a@b.com'', password = ''x''\<rparr>, \<lparr>email = ''c@d.org'', password = ''z''\<rparr>]
   \<and> snd (login_user [\<lparr>email = ''a@b.com'', password = ''x''\<rparr>]
          (JsonObject [''email'' \<mapsto> ''c@d.org'', ''password'' \<mapsto> ''z'']))
     = [\<lparr>email = ''a@b.com'', password = ''x''\<rparr>]"
proof -
  have 1: "fst (register_user contains_at [\<lparr>email = ''a@b.com'', password = ''x''\<rparr>]
          [''email'' \<mapsto> ''c@d.org'', ''password'' \<mapsto> ''z''])
     = Inr \<lparr>status = 201, body = JsonMessage ''User registered successfully!''\<rparr>"
    by (simp add: register_user_def is_valid_def serializer_errors_def serializer_save_def
        objects_create_def email_errors_def password_errors_def contains_at_def emails_def
        email_max_length_def register_ok_def HTTP_201_CREATED_def)
  have 2: "status \<lparr>status = 201, body = JsonMessage ''User registered successfully!''\<rparr> = 201"
    by simp
  have 3: "[''email'' \<mapsto> ''c@d.org'', ''password'' \<mapsto> ''z''] ''email'' = Some ''c@d.org''"
    by simp
  have 4: "[''email'' \<mapsto> ''c@d.org'', ''password'' \<mapsto> ''z''] ''password'' = Some ''z''"
    by simp
  note rows_never_updated_or_deleted
    [where validate_email = contains_at and db = "[\<lparr>email = ''a@b.com'', password = ''x''\<rparr>]"
       and d = "[''email'' \<mapsto> ''c@d.org'', ''password'' \<mapsto> ''z'']"
       and b = "JsonObject [''email'' \<mapsto> ''c@d.org'', ''password'' \<mapsto> ''z'']"]
  with 1 2 3 4 show ?thesis
    by (metis append_Cons append_Nil option.inject)
qed

end
